theory Spec2Isabelle
  imports Main "HOL-Library.AList" "HOL-Library.Sublist"
begin

section \<open>The tax-record table with its edit modal\<close>

text \<open>
  A shallow embedding of \<^verbatim>\<open>src/my-app/src/components/TanStackTableEditModal.tsx\<close>:
  the component's React state is a record, every event handler is a function from state
  to state, the two network exchanges are outcomes handed to the model, and the functions
  of the JavaScript host the component calls are fields of a \<open>host\<close> record.
\<close>

subsection \<open>Data (lines 9-18)\<close>

text \<open>
  An optional property of the TypeScript type is an \<open>option\<close>: \<open>None\<close> is
  \<^verbatim>\<open>undefined\<close> (or JSON \<^verbatim>\<open>null\<close>, which the operators used here treat alike).
\<close>

record TaxRecord =
  id' :: string
  name :: "string option"
  gender :: "string option"
  country :: "string option"
  requestDate :: "string option"
  createdAt :: "string option"

record Country =
  cname :: string

text \<open>The draft of line 28, \<^verbatim>\<open>{ name: "", country: "" }\<close>.\<close>

record Form =
  form_name :: string
  form_country :: string

subsection \<open>JavaScript operators\<close>

text \<open>\<^verbatim>\<open>a ?? b\<close>: the right operand only when the left one is undefined or null.\<close>

definition nullish :: "'a option \<Rightarrow> 'a \<Rightarrow> 'a" where
  "nullish a b = (case a of None \<Rightarrow> b | Some x \<Rightarrow> x)"

text \<open>\<^verbatim>\<open>a ?? b\<close> where \<open>b\<close> is optional too (line 52 and line 205).\<close>

definition nullish_opt :: "'a option \<Rightarrow> 'a option \<Rightarrow> 'a option" where
  "nullish_opt a b = (case a of None \<Rightarrow> b | Some x \<Rightarrow> Some x)"

text \<open>\<^verbatim>\<open>a || b\<close> on an optional string: the right operand when the left one is
  falsy, that is undefined or the empty string.\<close>

definition or_str :: "string option \<Rightarrow> string \<Rightarrow> string" where
  "or_str a b = (case a of None \<Rightarrow> b | Some x \<Rightarrow> if x = [] then b else x)"

text \<open>\<^verbatim>\<open>hay.includes(needle)\<close>: the needle occurs as a contiguous run.\<close>

fun includes_str :: "string \<Rightarrow> string \<Rightarrow> bool" where
  "includes_str [] needle = (needle = [])"
| "includes_str (c # cs) needle = (prefix needle (c # cs) \<or> includes_str cs needle)"

text \<open>\<^verbatim>\<open>xs.slice(-7)\<close>: from index \<open>max (length - 7) 0\<close> to the end (the
  subtraction on \<open>nat\<close> stops at 0).\<close>

definition slice_last7 :: "'a list \<Rightarrow> 'a list" where
  "slice_last7 xs = drop (length xs - 7) xs"

text \<open>
  A plain object used as a dictionary (\<^verbatim>\<open>Record<string, boolean>\<close>, line 32) is an
  association list with distinct keys: \<open>AList.update\<close> overwrites a key in place or
  appends it, \<open>map_of\<close> reads a property, and the list itself is what
  \<^verbatim>\<open>Object.entries\<close> enumerates (JavaScript lists integer-like keys first; the
  component only counts the entries and tests membership, so the order is immaterial).
\<close>

type_synonym filter_map = "(string \<times> bool) list"

definition wf_object :: "filter_map \<Rightarrow> bool" where
  "wf_object m = distinct (map fst m)"

text \<open>
  The association list holds the object's own properties only. The object is created by
  a literal, so behind them stand the properties of \<^verbatim>\<open>Object.prototype\<close>: methods,
  and the accessor \<^verbatim>\<open>__proto__\<close>, whose getter yields \<^verbatim>\<open>Object.prototype\<close> itself.
\<close>

definition object_prototype_keys :: "string list" where
  "object_prototype_keys =
     [''constructor'', ''hasOwnProperty'', ''isPrototypeOf'', ''propertyIsEnumerable'',
      ''toLocaleString'', ''toString'', ''valueOf'', ''__proto__'', ''__defineGetter__'',
      ''__defineSetter__'', ''__lookupGetter__'', ''__lookupSetter__'']"

text \<open>
  \<^verbatim>\<open>!!m[k]\<close>, and the operand of \<^verbatim>\<open>!m[k]\<close>: the own property if there is one;
  otherwise the inherited one, a function or an object and so truthy; otherwise
  undefined, which is falsy.
\<close>

definition truthy_at :: "filter_map \<Rightarrow> string \<Rightarrow> bool" where
  "truthy_at m k =
     (case map_of m k of None \<Rightarrow> k \<in> set object_prototype_keys | Some v \<Rightarrow> v)"

text \<open>
  The assignment \<^verbatim>\<open>m[k] = v\<close> of a boolean: it writes the own property \<open>k\<close>, except
  that for \<^verbatim>\<open>__proto__\<close>, when the object has no own property of that name, it calls
  the inherited setter, which ignores a value that is neither an object nor null.
\<close>

definition assign_bool :: "string \<Rightarrow> bool \<Rightarrow> filter_map \<Rightarrow> filter_map" where
  "assign_bool k v m =
     (if k = ''__proto__'' \<and> map_of m k = None then m else AList.update k v m)"

text \<open>
  The literal \<^verbatim>\<open>{ ...m, [k]: v }\<close>: the spread copies the own properties, and a
  computed key always defines an own property, \<^verbatim>\<open>__proto__\<close> included.
\<close>

definition spread_with :: "filter_map \<Rightarrow> string \<Rightarrow> bool \<Rightarrow> filter_map" where
  "spread_with m k v = AList.update k v m"

subsection \<open>The host\<close>

text \<open>
  \<^verbatim>\<open>Date.parse\<close>, \<^verbatim>\<open>Date.prototype.toLocaleDateString\<close> (called with the fixed
  arguments of lines 70-74) and \<^verbatim>\<open>String.prototype.toLowerCase\<close> belong to the
  JavaScript engine, not to the repository, so the component is modelled over any host.
  A time value is the number of milliseconds since the epoch; \<open>None\<close> is \<^verbatim>\<open>NaN\<close>.
\<close>

record host =
  Date_parse :: "string \<Rightarrow> int option"
  toLocaleDateString :: "int \<Rightarrow> string"
  toLowerCase :: "string \<Rightarrow> string"

subsection \<open>formatDate (lines 66-75)\<close>

definition formatDate :: "host \<Rightarrow> string option \<Rightarrow> string" where
  "formatDate h date =
     (case date of
        None \<Rightarrow> []
      | Some d \<Rightarrow>
          if d = [] then []
          else (case Date_parse h d of
                  None \<Rightarrow> d
                | Some parsed \<Rightarrow> toLocaleDateString h parsed))"

subsection \<open>Component state (lines 24-35)\<close>

text \<open>
  \<open>inflight\<close> is not a React state variable: it records the PUT that \<^verbatim>\<open>handleSave\<close>
  has issued and is awaiting (lines 198-204), so that the continuation after the
  \<^verbatim>\<open>await\<close> is a step of its own.
\<close>

record put_request =
  put_id :: string
  put_body :: TaxRecord

record state =
  data :: "TaxRecord list"
  countries :: "Country list"
  loading :: bool
  editing :: "TaxRecord option"
  form :: Form
  saving :: bool
  filterOpen :: bool
  countryFilter :: filter_map
  searchCountry :: string
  modalCountryOpen :: bool
  inflight :: "put_request option"

definition init_state :: state where
  "init_state =
     \<lparr> data = [], countries = [], loading = True, editing = None,
       form = \<lparr> form_name = [], form_country = [] \<rparr>, saving = False,
       filterOpen = False, countryFilter = [], searchCountry = [],
       modalCountryOpen = False, inflight = None \<rparr>"

subsection \<open>filteredData (lines 166-174)\<close>

definition activeFilters :: "filter_map \<Rightarrow> string list" where
  "activeFilters m = map fst (filter (\<lambda>(k, v). v) m)"

definition filteredData :: "state \<Rightarrow> TaxRecord list" where
  "filteredData s =
     (let af = activeFilters (countryFilter s)
      in if length af = 0 then data s
         else filter (\<lambda>d. or_str (country d) [] \<in> set af) (data s))"

subsection \<open>The mount effect (lines 37-64)\<close>

text \<open>
  What \<^verbatim>\<open>await fetch(url)\<close> followed by \<^verbatim>\<open>await resp.json()\<close> yields: either of
  the two promises rejects, or the parsed body arrives. Bodies are typed as the
  component's annotations declare them (\<^verbatim>\<open>Country[]\<close>, \<^verbatim>\<open>TaxRecord[]\<close>,
  \<^verbatim>\<open>TaxRecord\<close>).
\<close>

datatype rejection = FetchRejects | JsonRejects

datatype 'a fetched = Rejected rejection | Body 'a

text \<open>Lines 50-53: the object spread keeps every property and overwrites
  \<^verbatim>\<open>requestDate\<close>.\<close>

definition normalize :: "host \<Rightarrow> TaxRecord \<Rightarrow> TaxRecord" where
  "normalize h t =
     t\<lparr> requestDate := Some (formatDate h (nullish_opt (requestDate t) (createdAt t))) \<rparr>"

text \<open>Line 55, \<^verbatim>\<open>x?.name?.toLowerCase() === "harsh"\<close>: undefined, hence unequal, when
  the name is missing.\<close>

definition is_harsh :: "host \<Rightarrow> TaxRecord \<Rightarrow> bool" where
  "is_harsh h t = (case name t of None \<Rightarrow> False | Some n \<Rightarrow> toLowerCase h n = ''harsh'')"

text \<open>Lines 55-57: only index 0 is looked at; an empty list has no index 0.\<close>

definition harsh_patch :: "host \<Rightarrow> TaxRecord list \<Rightarrow> TaxRecord list" where
  "harsh_patch h normalized =
     (case normalized of
        [] \<Rightarrow> []
      | t # ts \<Rightarrow> if is_harsh h t then t\<lparr> gender := Some ''Female'' \<rparr> # ts else t # ts)"

text \<open>Lines 43-44: \<^verbatim>\<open>ctrs.forEach((c) => (map[c.name] = false))\<close> from the empty
  object.\<close>

definition build_filter_map :: "Country list \<Rightarrow> filter_map" where
  "build_filter_map ctrs = fold (\<lambda>c m. assign_bool (cname c) False m) ctrs []"

text \<open>
  The body of the \<^verbatim>\<open>try\<close> (lines 40-59). The second component is the rejection that
  ends the body early, if any; the state updates made before it stay.
\<close>

definition load_try :: "host \<Rightarrow> Country list fetched \<Rightarrow> TaxRecord list fetched
    \<Rightarrow> state \<Rightarrow> state \<times> rejection option" where
  "load_try h countriesResp taxesResp s =
     (case countriesResp of
        Rejected r \<Rightarrow> (s, Some r)
      | Body ctrs \<Rightarrow>
          let s1 = s\<lparr> countries := ctrs, countryFilter := build_filter_map ctrs \<rparr>
          in (case taxesResp of
                Rejected r \<Rightarrow> (s1, Some r)
              | Body taxesRaw \<Rightarrow>
                  (s1\<lparr> data := harsh_patch h (map (normalize h) (slice_last7 taxesRaw)) \<rparr>,
                   None)))"

text \<open>
  The whole effect: \<^verbatim>\<open>try { ... } finally { setLoading(false) }\<close>. There is no
  \<^verbatim>\<open>catch\<close>: a rejection leaves the async function after the \<^verbatim>\<open>finally\<close> block
  has run, and nothing in the component receives it.
\<close>

definition load :: "host \<Rightarrow> Country list fetched \<Rightarrow> TaxRecord list fetched
    \<Rightarrow> state \<Rightarrow> state \<times> rejection option" where
  "load h countriesResp taxesResp s =
     (case load_try h countriesResp taxesResp s of
        (s', rejection) \<Rightarrow> (s'\<lparr> loading := False \<rparr>, rejection))"

text \<open>The state the component is in once its mount effect has ended.\<close>

definition mounted :: "host \<Rightarrow> Country list fetched \<Rightarrow> TaxRecord list fetched \<Rightarrow> state" where
  "mounted h countriesResp taxesResp = fst (load h countriesResp taxesResp init_state)"

subsection \<open>The two country lists (lines 126-129 and 283-286)\<close>

definition filter_options :: "host \<Rightarrow> state \<Rightarrow> Country list" where
  "filter_options h s =
     filter (\<lambda>c. includes_str (toLowerCase h (cname c)) (toLowerCase h (searchCountry s)))
       (countries s)"

definition dropdown_options :: "host \<Rightarrow> state \<Rightarrow> Country list" where
  "dropdown_options h s =
     filter (\<lambda>c. includes_str (toLowerCase h (cname c)) (toLowerCase h (searchCountry s)))
       (countries s)"

subsection \<open>Handlers\<close>

text \<open>Lines 182-185.\<close>

definition openEdit :: "TaxRecord \<Rightarrow> state \<Rightarrow> state" where
  "openEdit row s =
     s\<lparr> editing := Some row,
        form := \<lparr> form_name = nullish (name row) [], form_country = nullish (country row) [] \<rparr> \<rparr>"

text \<open>Lines 187-190.\<close>

definition closeModal :: "state \<Rightarrow> state" where
  "closeModal s = s\<lparr> editing := None, modalCountryOpen := False \<rparr>"

text \<open>Lines 192-202, up to the first \<^verbatim>\<open>await\<close>: the guard, the flag, the payload and
  the PUT to \<^verbatim>\<open>TAXES_API/<editing.id>\<close>.\<close>

definition handleSave :: "state \<Rightarrow> state" where
  "handleSave s =
     (case editing s of
        None \<Rightarrow> s
      | Some e \<Rightarrow>
          s\<lparr> saving := True,
             inflight := Some \<lparr> put_id = id' e,
               put_body = e\<lparr> name := Some (form_name (form s)),
                              country := Some (form_country (form s)) \<rparr> \<rparr> \<rparr>)"

text \<open>
  Lines 198-209, from the \<^verbatim>\<open>await\<close> on. A rejection of \<^verbatim>\<open>fetch\<close> or of
  \<^verbatim>\<open>res.json()\<close> ends the function there: none of the lines 205-209 runs. Otherwise
  the response is re-dated, replaces every entry with its id (a functional update on the
  current list), and the flag and the modal are reset.
\<close>

definition handleSave_resume :: "host \<Rightarrow> TaxRecord fetched \<Rightarrow> state \<Rightarrow> state" where
  "handleSave_resume h res s =
     (case res of
        Rejected r \<Rightarrow> s\<lparr> inflight := None \<rparr>
      | Body updated0 \<Rightarrow>
          let updated = updated0\<lparr> requestDate :=
                Some (formatDate h (nullish_opt (requestDate updated0) (createdAt updated0))) \<rparr>
          in closeModal
               (s\<lparr> data := map (\<lambda>x. if id' x = id' updated then updated else x) (data s),
                   saving := False,
                   inflight := None \<rparr>))"

subsection \<open>Events\<close>

text \<open>
  Everything that can happen to the mounted component: the DOM events its JSX handles,
  and the settling of the PUT that \<^verbatim>\<open>handleSave\<close> awaits.
\<close>

datatype event =
    FilterButtonClick             \<comment> \<open>line 112\<close>
  | FilterSearchChange string     \<comment> \<open>line 123\<close>
  | CheckboxChange Country        \<comment> \<open>lines 135-140\<close>
  | EditClick TaxRecord           \<comment> \<open>line 157\<close>
  | OverlayClick                  \<comment> \<open>line 247\<close>
  | CloseClick                    \<comment> \<open>line 251\<close>
  | NameChange string             \<comment> \<open>line 261\<close>
  | DropdownButtonClick           \<comment> \<open>line 268\<close>
  | ModalSearchChange string      \<comment> \<open>line 279\<close>
  | RadioChange Country           \<comment> \<open>lines 292-295\<close>
  | CancelClick                   \<comment> \<open>line 306\<close>
  | SaveClick                     \<comment> \<open>line 309\<close>
  | SaveSettled "TaxRecord fetched" \<comment> \<open>lines 198 and 204\<close>

text \<open>
  An event can happen only on an element that is rendered (lines 212-317): the table,
  with the header's filter button and one edit button per displayed row, once
  \<open>loading\<close> is false; the popover when \<open>filterOpen\<close>; the modal when \<open>editing\<close>
  is set; the picker when \<open>modalCountryOpen\<close>; the Save button unless \<open>saving\<close>
  disables it. The PUT can settle only while one is awaited.
\<close>

fun enabled :: "host \<Rightarrow> state \<Rightarrow> event \<Rightarrow> bool" where
  "enabled h s FilterButtonClick = (\<not> loading s)"
| "enabled h s (FilterSearchChange v) = (\<not> loading s \<and> filterOpen s)"
| "enabled h s (CheckboxChange c) =
     (\<not> loading s \<and> filterOpen s \<and> c \<in> set (filter_options h s))"
| "enabled h s (EditClick row) = (\<not> loading s \<and> row \<in> set (filteredData s))"
| "enabled h s OverlayClick = (editing s \<noteq> None)"
| "enabled h s CloseClick = (editing s \<noteq> None)"
| "enabled h s (NameChange v) = (editing s \<noteq> None)"
| "enabled h s DropdownButtonClick = (editing s \<noteq> None)"
| "enabled h s (ModalSearchChange v) = (editing s \<noteq> None \<and> modalCountryOpen s)"
| "enabled h s (RadioChange c) =
     (editing s \<noteq> None \<and> modalCountryOpen s \<and> c \<in> set (dropdown_options h s))"
| "enabled h s CancelClick = (editing s \<noteq> None)"
| "enabled h s SaveClick = (editing s \<noteq> None \<and> \<not> saving s)"
| "enabled h s (SaveSettled res) = (inflight s \<noteq> None)"

text \<open>The handler each event runs.\<close>

fun handle :: "host \<Rightarrow> event \<Rightarrow> state \<Rightarrow> state" where
  "handle h FilterButtonClick s = s\<lparr> filterOpen := \<not> filterOpen s \<rparr>"
| "handle h (FilterSearchChange v) s = s\<lparr> searchCountry := v \<rparr>"
| "handle h (CheckboxChange c) s =
     s\<lparr> countryFilter :=
          spread_with (countryFilter s) (cname c) (\<not> truthy_at (countryFilter s) (cname c)) \<rparr>"
| "handle h (EditClick row) s = openEdit row s"
| "handle h OverlayClick s = closeModal s"
| "handle h CloseClick s = closeModal s"
| "handle h (NameChange v) s = s\<lparr> form := (form s)\<lparr> form_name := v \<rparr> \<rparr>"
| "handle h DropdownButtonClick s = s\<lparr> modalCountryOpen := \<not> modalCountryOpen s \<rparr>"
| "handle h (ModalSearchChange v) s = s\<lparr> searchCountry := v \<rparr>"
| "handle h (RadioChange c) s =
     s\<lparr> form := (form s)\<lparr> form_country := cname c \<rparr>, modalCountryOpen := False \<rparr>"
| "handle h CancelClick s = closeModal s"
| "handle h SaveClick s = handleSave s"
| "handle h (SaveSettled res) s = handleSave_resume h res s"

text \<open>An event on an element that is not there does nothing.\<close>

definition fire :: "host \<Rightarrow> state \<Rightarrow> event \<Rightarrow> state" where
  "fire h s ev = (if enabled h s ev then handle h ev s else s)"

definition run :: "host \<Rightarrow> state \<Rightarrow> event list \<Rightarrow> state" where
  "run h s evs = foldl (fire h) s evs"

text \<open>The events the user causes; the other one is the network's.\<close>

fun user_event :: "event \<Rightarrow> bool" where
  "user_event (SaveSettled res) = False"
| "user_event ev = True"

text \<open>Two states that differ at most in the draft, and not even there while the modal
  is open.\<close>

definition same_but_draft :: "state \<Rightarrow> state \<Rightarrow> bool" where
  "same_but_draft s t =
     (t = s\<lparr> form := form t \<rparr> \<and> (editing s \<noteq> None \<longrightarrow> form t = form s))"

subsection \<open>A reference host\<close>

text \<open>
  A host to run the component on, after the ECMAScript specification: \<^verbatim>\<open>Date.parse\<close>
  on the UTC form \<^verbatim>\<open>YYYY-MM-DDTHH:mm:ssZ\<close> of the date-time string format,
  \<^verbatim>\<open>toLocaleDateString("en-US", {month: "short", day: "2-digit", year: "numeric"})\<close>
  in a time zone \<open>tz\<close> minutes ahead of UTC, and \<^verbatim>\<open>toLowerCase\<close> on ASCII. The
  component never sets a \<^verbatim>\<open>timeZone\<close> option (lines 70-74), so the date shown is the
  calendar date in the time zone of the host.
\<close>

definition digit_of :: "char \<Rightarrow> nat option" where
  "digit_of c =
     (let n = (of_char c :: nat) in if 48 \<le> n \<and> n \<le> 57 then Some (n - 48) else None)"

fun number_of :: "nat \<Rightarrow> string \<Rightarrow> nat option" where
  "number_of acc [] = Some acc"
| "number_of acc (c # cs) =
     (case digit_of c of None \<Rightarrow> None | Some d \<Rightarrow> number_of (10 * acc + d) cs)"

definition leap_year :: "int \<Rightarrow> bool" where
  "leap_year y = (y mod 4 = 0 \<and> (y mod 100 \<noteq> 0 \<or> y mod 400 = 0))"

definition days_in_month :: "int \<Rightarrow> int \<Rightarrow> int" where
  "days_in_month y m =
     (if m = 2 then (if leap_year y then 29 else 28)
      else if m = 4 \<or> m = 6 \<or> m = 9 \<or> m = 11 then 30 else 31)"

text \<open>Days between 1970-01-01 and a date of the proleptic Gregorian calendar, and back.\<close>

definition days_from_civil :: "int \<Rightarrow> int \<Rightarrow> int \<Rightarrow> int" where
  "days_from_civil y m d =
     (let y1 = (if m \<le> 2 then y - 1 else y);
          era = y1 div 400;
          yoe = y1 - era * 400;
          doy = (153 * (if m > 2 then m - 3 else m + 9) + 2) div 5 + d - 1;
          doe = yoe * 365 + yoe div 4 - yoe div 100 + doy
      in era * 146097 + doe - 719468)"

definition civil_from_days :: "int \<Rightarrow> int \<times> int \<times> int" where
  "civil_from_days z =
     (let z1 = z + 719468;
          era = z1 div 146097;
          doe = z1 - era * 146097;
          yoe = (doe - doe div 1460 + doe div 36524 - doe div 146096) div 365;
          doy = doe - (365 * yoe + yoe div 4 - yoe div 100);
          mp = (5 * doy + 2) div 153;
          d = doy - (153 * mp + 2) div 5 + 1;
          m = (if mp < 10 then mp + 3 else mp - 9);
          y = yoe + era * 400
      in (if m \<le> 2 then y + 1 else y, m, d))"

definition parse_utc :: "string \<Rightarrow> int option" where
  "parse_utc s =
     (if length s = 20 \<and> s ! 4 = CHR ''-'' \<and> s ! 7 = CHR ''-'' \<and> s ! 10 = CHR ''T''
         \<and> s ! 13 = CHR '':'' \<and> s ! 16 = CHR '':'' \<and> s ! 19 = CHR ''Z''
      then
        (case (number_of 0 (take 4 s), number_of 0 (take 2 (drop 5 s)),
               number_of 0 (take 2 (drop 8 s)), number_of 0 (take 2 (drop 11 s)),
               number_of 0 (take 2 (drop 14 s)), number_of 0 (take 2 (drop 17 s))) of
           (Some y, Some m, Some d, Some hh, Some mm, Some ss) \<Rightarrow>
             if 1 \<le> m \<and> m \<le> 12 \<and> 1 \<le> d \<and> int d \<le> days_in_month (int y) (int m)
                \<and> hh \<le> 23 \<and> mm \<le> 59 \<and> ss \<le> 59
             then Some (days_from_civil (int y) (int m) (int d) * 86400000
                        + (int hh * 3600 + int mm * 60 + int ss) * 1000)
             else None
         | _ \<Rightarrow> None)
      else None)"

fun decimal :: "nat \<Rightarrow> string" where
  "decimal n =
     (if n < 10 then [char_of (48 + n)] else decimal (n div 10) @ [char_of (48 + n mod 10)])"

definition two_digit :: "nat \<Rightarrow> string" where
  "two_digit n = (if n < 10 then CHR ''0'' # decimal n else decimal n)"

definition month_short :: "int \<Rightarrow> string" where
  "month_short m =
     [''Jan'', ''Feb'', ''Mar'', ''Apr'', ''May'', ''Jun'',
      ''Jul'', ''Aug'', ''Sep'', ''Oct'', ''Nov'', ''Dec''] ! nat (m - 1)"

definition en_US_short :: "int \<Rightarrow> int \<Rightarrow> string" where
  "en_US_short tz t =
     (case civil_from_days ((t + tz * 60000) div 86400000) of
        (y, m, d) \<Rightarrow> month_short m @ '' '' @ two_digit (nat d) @ '', '' @ decimal (nat y))"

definition ascii_lower :: "string \<Rightarrow> string" where
  "ascii_lower s =
     map (\<lambda>c. let n = (of_char c :: nat) in if 65 \<le> n \<and> n \<le> 90 then char_of (n + 32) else c) s"

definition reference_host :: "int \<Rightarrow> host" where
  "reference_host tz =
     \<lparr> Date_parse = parse_utc, toLocaleDateString = en_US_short tz,
       toLowerCase = ascii_lower \<rparr>"

subsection \<open>The specification's own notions\<close>

text \<open>
  The filter selection \<open>F\<close>: the names whose checkbox is checked. There is one
  checkbox per country (lines 126-144), checked when \<^verbatim>\<open>!!countryFilter[c.name]\<close>
  (line 134).
\<close>

definition checked_names :: "state \<Rightarrow> string set" where
  "checked_names s =
     set (map cname (filter (\<lambda>c. truthy_at (countryFilter s) (cname c)) (countries s)))"

text \<open>
  What holds of the dictionary in every state the component reaches: it is an object,
  its own keys are names of countries, and every country has its own key, except
  possibly one named \<^verbatim>\<open>__proto__\<close>.
\<close>

definition dictionary_inv :: "state \<Rightarrow> bool" where
  "dictionary_inv s =
     (wf_object (countryFilter s)
      \<and> fst ` set (countryFilter s) \<subseteq> cname ` set (countries s)
      \<and> (\<forall>c \<in> set (countries s).
            cname c \<noteq> ''__proto__'' \<longrightarrow> cname c \<in> fst ` set (countryFilter s)))"

text \<open>
  The rows the specification promises for a selection \<open>F\<close>: all of them when \<open>F\<close>
  is empty, otherwise those whose country is a name in \<open>F\<close>.
\<close>

definition rows_with_country_in :: "string set \<Rightarrow> TaxRecord list \<Rightarrow> TaxRecord list" where
  "rows_with_country_in F rows =
     (if F = {} then rows else filter (\<lambda>d. \<exists>n\<in>F. country d = Some n) rows)"

text \<open>
  The list the specification promises for a fetched array: its last seven entries, each
  with \<open>requestDate\<close> replaced by the formatted \<open>requestDate\<close> if there is one,
  else by the formatted \<open>createdAt\<close>.
\<close>

definition last7_date_formatted :: "host \<Rightarrow> TaxRecord list \<Rightarrow> TaxRecord list" where
  "last7_date_formatted h raw =
     map (\<lambda>t. t\<lparr> requestDate :=
                 Some (formatDate h (if requestDate t \<noteq> None then requestDate t
                                     else createdAt t)) \<rparr>)
       (rev (take 7 (rev raw)))"

subsection \<open>Scenarios\<close>

text \<open>Concrete runs of the component on the reference host in UTC, used below.\<close>

definition no_country_row :: TaxRecord where
  "no_country_row =
     \<lparr> id' = ''1'', name = Some ''Asha'', gender = None, country = None,
       requestDate = None, createdAt = None \<rparr>"

definition india_row :: TaxRecord where
  "india_row =
     \<lparr> id' = ''2'', name = Some ''Ravi'', gender = Some ''male'', country = Some ''India'',
       requestDate = None, createdAt = None \<rparr>"

text \<open>The countries endpoint lists a country whose name is the empty string; the user
  opens the filter popover and checks it.\<close>

definition blank_name_selected :: state where
  "blank_name_selected =
     run (reference_host 0)
       (mounted (reference_host 0) (Body [\<lparr> cname = [] \<rparr>]) (Body [no_country_row]))
       [FilterButtonClick, CheckboxChange \<lparr> cname = [] \<rparr>]"

text \<open>Two countries, two rows; the user opens the filter popover and checks India.\<close>

definition india_selected :: state where
  "india_selected =
     run (reference_host 0)
       (mounted (reference_host 0) (Body [\<lparr> cname = ''India'' \<rparr>, \<lparr> cname = ''Japan'' \<rparr>])
          (Body [no_country_row, india_row]))
       [FilterButtonClick, CheckboxChange \<lparr> cname = ''India'' \<rparr>]"

text \<open>The countries endpoint lists a country named \<^verbatim>\<open>__proto__\<close>; the user has
  done nothing yet.\<close>

definition proto_loaded :: state where
  "proto_loaded =
     mounted (reference_host 0) (Body [\<lparr> cname = ''__proto__'' \<rparr>, \<lparr> cname = ''India'' \<rparr>])
       (Body [no_country_row, india_row])"

text \<open>A record named Harsh whose source gender is not Female.\<close>

definition harsh_row :: TaxRecord where
  "harsh_row =
     \<lparr> id' = ''7'', name = Some ''Harsh'', gender = Some ''Male'', country = Some ''India'',
       requestDate = Some ''2023-11-02T00:00:00Z'', createdAt = None \<rparr>"

text \<open>Two countries and two rows loaded; then the user opens the edit modal on the
  second row, types a name and opens the country picker.\<close>

definition two_rows_loaded :: state where
  "two_rows_loaded =
     mounted (reference_host 0) (Body [\<lparr> cname = ''India'' \<rparr>, \<lparr> cname = ''Japan'' \<rparr>])
       (Body [no_country_row, india_row])"

definition india_shown :: TaxRecord where
  "india_shown = india_row\<lparr> requestDate := Some [] \<rparr>"

definition draft_open :: state where
  "draft_open =
     run (reference_host 0) two_rows_loaded
       [EditClick india_shown, NameChange ''Draft'', DropdownButtonClick]"

text \<open>A reply of the PUT endpoint that returns the record with the edited fields.\<close>

definition saved_reply :: TaxRecord where
  "saved_reply = india_row\<lparr> name := Some ''Ravi K'', country := Some ''Japan'' \<rparr>"

text \<open>Eight fetched records: one more than is kept.\<close>

definition eight_rows :: "TaxRecord list" where
  "eight_rows =
     [no_country_row, harsh_row, india_row, india_row, no_country_row, india_row,
      india_row, no_country_row]"

section \<open>Properties\<close>

subsection \<open>Objects as association lists\<close>

lemmas handler_defs =
  openEdit_def closeModal_def handleSave_def handleSave_resume_def

lemma mem_activeFilters: "k \<in> set (activeFilters m) \<longleftrightarrow> (k, True) \<in> set m"
  unfolding activeFilters_def by (auto simp: image_iff)

lemma or_str_empty: "or_str c [] = (case c of None \<Rightarrow> [] | Some x \<Rightarrow> x)"
  by (simp add: or_str_def split: option.splits)

lemma truthy_at_own:
  "wf_object m \<Longrightarrow> k \<in> fst ` set m \<Longrightarrow> truthy_at m k \<longleftrightarrow> (k, True) \<in> set m"
proof -
  assume wf: "wf_object m" and k: "k \<in> fst ` set m"
  then obtain v where v: "map_of m k = Some v"
    by (metis domD dom_map_of_conv_image_fst)
  have "(k, True) \<in> set m \<longleftrightarrow> map_of m k = Some True"
    using wf by (simp add: wf_object_def)
  then show ?thesis
    by (simp add: truthy_at_def v)
qed

lemma keys_assign_bool:
  "fst ` set (assign_bool k v m) = fst ` set m \<union> (if k = ''__proto__'' \<and> map_of m k = None then {} else {k})"
  by (auto simp: assign_bool_def AList.dom_update)

lemma wf_assign_bool: "wf_object m \<Longrightarrow> wf_object (assign_bool k v m)"
  by (simp add: assign_bool_def wf_object_def distinct_update)

lemma fold_assign_inv:
  "wf_object m \<Longrightarrow>
     wf_object (fold (\<lambda>c m. assign_bool (cname c) False m) ctrs m)
     \<and> fst ` set (fold (\<lambda>c m. assign_bool (cname c) False m) ctrs m)
          \<subseteq> fst ` set m \<union> cname ` set ctrs
     \<and> fst ` set m \<union> (cname ` set ctrs - {''__proto__''})
          \<subseteq> fst ` set (fold (\<lambda>c m. assign_bool (cname c) False m) ctrs m)"
proof (induction ctrs arbitrary: m)
  case Nil
  then show ?case by simp
next
  case (Cons c ctrs)
  have wf: "wf_object (assign_bool (cname c) False m)"
    using Cons.prems by (rule wf_assign_bool)
  show ?case
    using Cons.IH [OF wf] keys_assign_bool [of "cname c" False m]
    by (auto split: if_splits)
qed

text \<open>The invariant holds once the mount effect has ended, and every event keeps it.\<close>

lemma dictionary_inv_mounted: "dictionary_inv (mounted h cr tr)"
proof (cases cr)
  case (Rejected r)
  then show ?thesis
    by (simp add: dictionary_inv_def mounted_def load_def load_try_def init_state_def wf_object_def)
next
  case (Body ctrs)
  have inv: "wf_object (build_filter_map ctrs)
     \<and> fst ` set (build_filter_map ctrs) \<subseteq> cname ` set ctrs
     \<and> cname ` set ctrs - {''__proto__''} \<subseteq> fst ` set (build_filter_map ctrs)"
    using fold_assign_inv [of "[]" ctrs] by (simp add: build_filter_map_def wf_object_def)
  have "countryFilter (mounted h cr tr) = build_filter_map ctrs \<and> countries (mounted h cr tr) = ctrs"
    using Body by (cases tr) (simp_all add: mounted_def load_def load_try_def Let_def)
  then show ?thesis
    using inv by (auto simp: dictionary_inv_def)
qed

lemma dictionary_inv_fire: "dictionary_inv s \<Longrightarrow> dictionary_inv (fire h s ev)"
proof (cases ev)
  case (CheckboxChange c)
  assume inv: "dictionary_inv s"
  show ?thesis
  proof (cases "enabled h s ev")
    case False
    then show ?thesis using inv by (simp add: fire_def)
  next
    case True
    then have c: "c \<in> set (countries s)"
      using CheckboxChange by (simp add: filter_options_def)
    show ?thesis
      using inv c True CheckboxChange
      by (auto simp: fire_def dictionary_inv_def spread_with_def wf_object_def distinct_update
            AList.dom_update)
  qed
qed (auto simp: fire_def dictionary_inv_def handler_defs Let_def split: fetched.splits option.splits)

lemma dictionary_inv_run: "dictionary_inv s \<Longrightarrow> dictionary_inv (run h s evs)"
  unfolding run_def by (induction evs arbitrary: s) (simp_all add: dictionary_inv_fire)

lemma dictionary_inv_reachable: "dictionary_inv (run h (mounted h cr tr) evs)"
  by (rule dictionary_inv_run) (rule dictionary_inv_mounted)

text \<open>Without a country named \<^verbatim>\<open>__proto__\<close>, the active filters are the checked
  names.\<close>

lemma activeFilters_checked:
  assumes "dictionary_inv s" and "''__proto__'' \<notin> cname ` set (countries s)"
  shows "set (activeFilters (countryFilter s)) = checked_names s"
proof (rule set_eqI)
  fix k
  have wf: "wf_object (countryFilter s)"
    and keys: "fst ` set (countryFilter s) \<subseteq> cname ` set (countries s)"
    using assms(1) by (simp_all add: dictionary_inv_def)
  have own: "cname c \<in> fst ` set (countryFilter s)" if "c \<in> set (countries s)" for c
  proof -
    have "cname c \<noteq> ''__proto__''"
      using that assms(2) by force
    then show ?thesis
      using that assms(1) unfolding dictionary_inv_def by blast
  qed
  show "k \<in> set (activeFilters (countryFilter s)) \<longleftrightarrow> k \<in> checked_names s"
  proof
    assume "k \<in> set (activeFilters (countryFilter s))"
    then have t: "(k, True) \<in> set (countryFilter s)"
      by (simp add: mem_activeFilters)
    then have k: "k \<in> fst ` set (countryFilter s)"
      by force
    then obtain c where "c \<in> set (countries s)" "cname c = k"
      using keys by auto
    moreover have "truthy_at (countryFilter s) k"
      using truthy_at_own [OF wf k] t by simp
    ultimately show "k \<in> checked_names s"
      by (auto simp: checked_names_def)
  next
    assume "k \<in> checked_names s"
    then obtain c where c: "c \<in> set (countries s)" "cname c = k" "truthy_at (countryFilter s) k"
      by (auto simp: checked_names_def)
    then have "k \<in> fst ` set (countryFilter s)"
      using own by auto
    then have "(k, True) \<in> set (countryFilter s)"
      using truthy_at_own [OF wf] c(3) by simp
    then show "k \<in> set (activeFilters (countryFilter s))"
      by (simp add: mem_activeFilters)
  qed
qed

lemma blank_name_selected_eq:
  "blank_name_selected =
     \<lparr> data = [no_country_row\<lparr> requestDate := Some [] \<rparr>],
       countries = [\<lparr> cname = [] \<rparr>], loading = False, editing = None,
       form = \<lparr> form_name = [], form_country = [] \<rparr>, saving = False,
       filterOpen = True, countryFilter = [([], True)], searchCountry = [],
       modalCountryOpen = False, inflight = None \<rparr>"
  by code_simp

lemma india_selected_eq:
  "india_selected =
     \<lparr> data = [no_country_row\<lparr> requestDate := Some [] \<rparr>, india_row\<lparr> requestDate := Some [] \<rparr>],
       countries = [\<lparr> cname = ''India'' \<rparr>, \<lparr> cname = ''Japan'' \<rparr>], loading = False,
       editing = None, form = \<lparr> form_name = [], form_country = [] \<rparr>, saving = False,
       filterOpen = True, countryFilter = [(''India'', True), (''Japan'', False)],
       searchCountry = [], modalCountryOpen = False, inflight = None \<rparr>"
  by code_simp

lemma checked_blank: "checked_names blank_name_selected = {[]}"
  by (simp add: blank_name_selected_eq checked_names_def truthy_at_def)

lemma checked_india: "checked_names india_selected = {''India''}"
  by (simp add: india_selected_eq checked_names_def truthy_at_def)

text \<open>
  A country named \<^verbatim>\<open>__proto__\<close> gets no entry from the loader, so its checkbox reads
  the inherited property and shows checked, while no filter is active and every row is
  displayed.
\<close>

lemma proto_checkbox_inert:
  "countryFilter proto_loaded = [(''India'', False)]
   \<and> truthy_at (countryFilter proto_loaded) ''__proto__''
   \<and> activeFilters (countryFilter proto_loaded) = []
   \<and> filteredData proto_loaded = data proto_loaded"
  by code_simp

subsection \<open>The country filter\<close>

text \<open>
  C1, as the specification states it, fails: with the empty name among the checked names,
  a row that has no country is displayed, although its country equals no name.
\<close>

theorem rows_with_country_in_counterexample:
  "filteredData blank_name_selected = [no_country_row\<lparr> requestDate := Some [] \<rparr>]
   \<and> rows_with_country_in (checked_names blank_name_selected) (data blank_name_selected) = []"
  by (simp add: checked_blank rows_with_country_in_def)
     (simp add: blank_name_selected_eq filteredData_def activeFilters_def or_str_def
        no_country_row_def)

text \<open>
  C1, amended: in every state the component reaches in which no country is named
  \<^verbatim>\<open>__proto__\<close>, for the record list loaded and the filter selection \<open>F\<close> (the
  names whose checkbox is checked), the rows displayed are exactly, and in order, the
  records whose country, read as the empty string when the record has none, is a name in
  \<open>F\<close>; when \<open>F\<close> is empty, every record is displayed.
\<close>

theorem filteredData_selection:
  assumes "s = run h (mounted h cr tr) evs" and "''__proto__'' \<notin> cname ` set (countries s)"
  shows "filteredData s =
    (if checked_names s = {} then data s
     else filter (\<lambda>d. (case country d of None \<Rightarrow> [] | Some c \<Rightarrow> c) \<in> checked_names s) (data s))"
proof -
  have "dictionary_inv s"
    unfolding assms(1) by (rule dictionary_inv_reachable)
  then have "set (activeFilters (countryFilter s)) = checked_names s"
    using assms(2) by (rule activeFilters_checked)
  then show ?thesis
    by (auto simp: filteredData_def Let_def or_str_empty)
qed

theorem filteredData_selection_witness:
  "''__proto__'' \<notin> cname ` set (countries india_selected)
   \<and> checked_names india_selected = {''India''}
   \<and> filteredData india_selected = [india_row\<lparr> requestDate := Some [] \<rparr>]"
proof -
  have p: "''__proto__'' \<notin> cname ` set (countries india_selected)"
    by (simp add: india_selected_eq)
  have "filteredData india_selected =
    (if checked_names india_selected = {} then data india_selected
     else filter (\<lambda>d. (case country d of None \<Rightarrow> [] | Some c \<Rightarrow> c) \<in> checked_names india_selected)
            (data india_selected))"
    using india_selected_def p by (rule filteredData_selection)
  then have "filteredData india_selected = [india_row\<lparr> requestDate := Some [] \<rparr>]"
    by (simp add: checked_india) (simp add: india_selected_eq no_country_row_def india_row_def)
  then show ?thesis
    using p checked_india by simp
qed

text \<open>
  C10, as stated, fails on the same run: a checkbox is checked, and the row without a
  country is displayed.
\<close>

theorem hidden_without_country_counterexample:
  "checked_names blank_name_selected \<noteq> {}
   \<and> country (no_country_row\<lparr> requestDate := Some [] \<rparr>) = None
   \<and> no_country_row\<lparr> requestDate := Some [] \<rparr> \<in> set (filteredData blank_name_selected)"
  by (simp add: checked_blank)
     (simp add: blank_name_selected_eq filteredData_def activeFilters_def or_str_def
        no_country_row_def)

text \<open>
  C10, amended: in every state the component reaches in which no country is named
  \<^verbatim>\<open>__proto__\<close>, a record without a country is compared against the active filters
  as the empty string, so it is displayed exactly when no checkbox is checked or the
  empty name is among the checked names; whenever at least one checkbox is checked and
  the empty name is not, every record without a country is hidden.
\<close>

theorem no_country_displayed_iff:
  assumes "s = run h (mounted h cr tr) evs" and "''__proto__'' \<notin> cname ` set (countries s)"
    and "d \<in> set (data s)" and "country d = None"
  shows "d \<in> set (filteredData s) \<longleftrightarrow> checked_names s = {} \<or> [] \<in> checked_names s"
proof -
  have "dictionary_inv s"
    unfolding assms(1) by (rule dictionary_inv_reachable)
  then have "set (activeFilters (countryFilter s)) = checked_names s"
    using assms(2) by (rule activeFilters_checked)
  then show ?thesis
    using assms(3,4) by (auto simp: filteredData_def Let_def or_str_empty)
qed

theorem no_country_displayed_iff_witness:
  "''__proto__'' \<notin> cname ` set (countries india_selected)
   \<and> no_country_row\<lparr> requestDate := Some [] \<rparr> \<in> set (data india_selected)
   \<and> country (no_country_row\<lparr> requestDate := Some [] \<rparr>) = None
   \<and> checked_names india_selected = {''India''}
   \<and> no_country_row\<lparr> requestDate := Some [] \<rparr> \<notin> set (filteredData india_selected)"
proof -
  have p: "''__proto__'' \<notin> cname ` set (countries india_selected)"
    by (simp add: india_selected_eq)
  have d: "no_country_row\<lparr> requestDate := Some [] \<rparr> \<in> set (data india_selected)"
    by (simp add: india_selected_eq)
  have c: "country (no_country_row\<lparr> requestDate := Some [] \<rparr>) = None"
    by (simp add: no_country_row_def)
  show ?thesis
    using p d c checked_india no_country_displayed_iff [OF india_selected_def p d c] by simp
qed

subsection \<open>The loaded list\<close>

lemma slice_last7_rev: "slice_last7 xs = rev (take 7 (rev xs))"
  by (simp add: slice_last7_def rev_take)

lemma nullish_opt_if: "nullish_opt a b = (if a \<noteq> None then a else b)"
  by (cases a) (simp_all add: nullish_opt_def)

lemma map_normalize: "map (normalize h) (slice_last7 raw) = last7_date_formatted h raw"
  by (simp add: last7_date_formatted_def slice_last7_rev normalize_def nullish_opt_if)

lemma data_mounted:
  "data (mounted h (Body ctrs) (Body raw)) = harsh_patch h (map (normalize h) (slice_last7 raw))"
  by (simp add: mounted_def load_def load_try_def Let_def)

lemma length_harsh_patch: "length (harsh_patch h xs) = length xs"
  by (cases xs) (simp_all add: harsh_patch_def)

lemma ids_harsh_patch: "map id' (harsh_patch h xs) = map id' xs"
  by (cases xs) (simp_all add: harsh_patch_def)

lemma tl_harsh_patch: "tl (harsh_patch h xs) = tl xs"
  by (cases xs) (simp_all add: harsh_patch_def)

lemma name_normalize: "name (normalize h t) = name t"
  by (simp add: normalize_def)

text \<open>
  C2, as stated, fails: the list held after loading a single record named Harsh is not
  the date-formatted copy of that record, since its gender has changed too.
\<close>

theorem mounted_data_counterexample:
  "data (mounted (reference_host 0) (Body []) (Body [harsh_row]))
     = [harsh_row\<lparr> gender := Some ''Female'', requestDate := Some ''Nov 02, 2023'' \<rparr>]
   \<and> last7_date_formatted (reference_host 0) [harsh_row]
     = [harsh_row\<lparr> requestDate := Some ''Nov 02, 2023'' \<rparr>]
   \<and> data (mounted (reference_host 0) (Body []) (Body [harsh_row]))
     \<noteq> last7_date_formatted (reference_host 0) [harsh_row]"
  by code_simp

text \<open>
  C2, amended: for every array returned by the tax-records fetch, the record list stored
  in state is the last 7 entries of that array, in order, each with its
  \<open>requestDate\<close> replaced by the formatted \<open>requestDate\<close> when present, otherwise
  by the formatted \<open>createdAt\<close>, except that the first of them has its gender replaced
  by \<open>Female\<close> when its name lowercases to \<open>harsh\<close>; no other entry of the array is
  held.
\<close>

theorem mounted_data:
  "data (mounted h (Body ctrs) (Body raw)) =
     (case last7_date_formatted h raw of
        [] \<Rightarrow> []
      | t # ts \<Rightarrow> (if is_harsh h t then t\<lparr> gender := Some ''Female'' \<rparr> else t) # ts)
   \<and> length (data (mounted h (Body ctrs) (Body raw))) = min 7 (length raw)
   \<and> map id' (data (mounted h (Body ctrs) (Body raw))) = rev (take 7 (rev (map id' raw)))"
proof -
  have "map id' (map (normalize h) (slice_last7 raw)) = rev (take 7 (rev (map id' raw)))"
    by (simp add: slice_last7_rev normalize_def rev_map take_map comp_def)
  moreover have "length (slice_last7 raw) = min 7 (length raw)"
    by (simp add: slice_last7_def)
  ultimately show ?thesis
    unfolding data_mounted length_harsh_patch ids_harsh_patch
    by (simp add: map_normalize [symmetric] harsh_patch_def split: list.splits)
qed

theorem mounted_data_witness:
  "length (data (mounted (reference_host 0) (Body []) (Body eight_rows))) = 7
   \<and> map id' (data (mounted (reference_host 0) (Body []) (Body eight_rows)))
       = [''7'', ''2'', ''2'', ''1'', ''2'', ''2'', ''1'']
   \<and> map gender (data (mounted (reference_host 0) (Body []) (Body eight_rows)))
       = [Some ''Female'', Some ''male'', Some ''male'', None, Some ''male'', Some ''male'',
          None]"
proof -
  have g: "map gender (data (mounted (reference_host 0) (Body []) (Body eight_rows)))
       = [Some ''Female'', Some ''male'', Some ''male'', None, Some ''male'', Some ''male'',
          None]"
    by code_simp
  have "length (data (mounted (reference_host 0) (Body []) (Body eight_rows)))
          = min 7 (length eight_rows)
        \<and> map id' (data (mounted (reference_host 0) (Body []) (Body eight_rows)))
          = rev (take 7 (rev (map id' eight_rows)))"
    using mounted_data [of "reference_host 0" "[]" eight_rows] by blast
  then show ?thesis
    using g
    by (simp add: eight_rows_def no_country_row_def harsh_row_def india_row_def)
qed

text \<open>
  C4: when the first record of the normalized list (the first of the last seven fetched)
  has a name that lowercases to \<open>harsh\<close>, the stored list starts with that record,
  normalized and with gender \<open>Female\<close>, whatever its gender was; every later position
  holds the normalized record, unpatched, whatever the names are.
\<close>

theorem harsh_patch_first_only:
  "tl (data (mounted h (Body ctrs) (Body raw))) = map (normalize h) (tl (slice_last7 raw))
   \<and> (slice_last7 raw = t0 # rest \<and> name t0 = Some n \<and> toLowerCase h n = ''harsh'' \<longrightarrow>
        data (mounted h (Body ctrs) (Body raw))
          = (normalize h t0)\<lparr> gender := Some ''Female'' \<rparr> # map (normalize h) rest)"
  unfolding data_mounted tl_harsh_patch
  by (simp add: map_tl harsh_patch_def is_harsh_def name_normalize)

theorem harsh_patch_first_only_witness:
  "slice_last7 [harsh_row, india_row, harsh_row] = harsh_row # [india_row, harsh_row]
   \<and> name harsh_row = Some ''Harsh''
   \<and> toLowerCase (reference_host 0) ''Harsh'' = ''harsh''
   \<and> data (mounted (reference_host 0) (Body []) (Body [harsh_row, india_row, harsh_row]))
       = [harsh_row\<lparr> requestDate := Some ''Nov 02, 2023'', gender := Some ''Female'' \<rparr>,
          india_row\<lparr> requestDate := Some [] \<rparr>,
          harsh_row\<lparr> requestDate := Some ''Nov 02, 2023'' \<rparr>]"
proof -
  have a: "slice_last7 [harsh_row, india_row, harsh_row] = harsh_row # [india_row, harsh_row]"
    by (simp add: slice_last7_def)
  have b: "name harsh_row = Some ''Harsh''"
    by (simp add: harsh_row_def)
  have c: "toLowerCase (reference_host 0) ''Harsh'' = ''harsh''"
    by code_simp
  have n1: "normalize (reference_host 0) harsh_row
              = harsh_row\<lparr> requestDate := Some ''Nov 02, 2023'' \<rparr>"
    by code_simp
  have n2: "normalize (reference_host 0) india_row = india_row\<lparr> requestDate := Some [] \<rparr>"
    by code_simp
  have "data (mounted (reference_host 0) (Body []) (Body [harsh_row, india_row, harsh_row]))
          = (normalize (reference_host 0) harsh_row)\<lparr> gender := Some ''Female'' \<rparr>
            # map (normalize (reference_host 0)) [india_row, harsh_row]"
    using a b c harsh_patch_first_only [of "reference_host 0" "[]"
        "[harsh_row, india_row, harsh_row]" harsh_row "[india_row, harsh_row]" "''Harsh''"]
    by blast
  then show ?thesis
    using a b c by (simp add: n1 n2)
qed

subsection \<open>Dates\<close>

lemma parse_example: "parse_utc ''2023-11-02T00:00:00Z'' = Some 1698883200000"
  by code_simp

lemma day_of_example:
  "0 \<le> tz \<Longrightarrow> tz < 1440 \<Longrightarrow> (1698883200000 + tz * 60000) div 86400000 = (19663::int)"
  by simp

lemma civil_example: "civil_from_days 19663 = (2023, 11, 2)"
  by code_simp

lemma text_example:
  "month_short 11 @ '' '' @ two_digit (nat 2) @ '', '' @ decimal (nat 2023) = ''Nov 02, 2023''"
  by code_simp

lemma en_US_example:
  "0 \<le> tz \<Longrightarrow> tz < 1440 \<Longrightarrow> en_US_short tz 1698883200000 = ''Nov 02, 2023''"
  unfolding en_US_short_def by (simp only: day_of_example civil_example prod.case text_example)

text \<open>
  C5, as stated, fails on a host west of UTC: at UTC-4 (New York on that day) the instant
  \<^verbatim>\<open>2023-11-02T00:00:00Z\<close> is the evening of November 1.
\<close>

theorem formatDate_west_of_UTC_counterexample:
  "formatDate (reference_host (- 240)) (Some ''2023-11-02T00:00:00Z'') = ''Nov 01, 2023''
   \<and> formatDate (reference_host (- 240)) (Some ''2023-11-02T00:00:00Z'') \<noteq> ''Nov 02, 2023''"
  by code_simp

text \<open>
  C5, amended: on a host whose time zone is UTC or ahead of it, the date formatter maps
  \<^verbatim>\<open>2023-11-02T00:00:00Z\<close> to \<^verbatim>\<open>Nov 02, 2023\<close>; on every host it maps a non-empty
  string that does not parse as a date to itself, and a missing or empty date to the
  empty string.
\<close>

theorem formatDate_cases:
  "(0 \<le> tz \<and> tz < 1440 \<longrightarrow>
      formatDate (reference_host tz) (Some ''2023-11-02T00:00:00Z'') = ''Nov 02, 2023'')
   \<and> (d \<noteq> [] \<and> Date_parse h d = None \<longrightarrow> formatDate h (Some d) = d)
   \<and> formatDate h None = []
   \<and> formatDate h (Some []) = []"
  by (simp add: formatDate_def reference_host_def parse_example en_US_example)

theorem formatDate_cases_witness:
  "(0::int) \<le> 330 \<and> (330::int) < 1440
   \<and> formatDate (reference_host 330) (Some ''2023-11-02T00:00:00Z'') = ''Nov 02, 2023''
   \<and> ''soon'' \<noteq> [] \<and> Date_parse (reference_host 330) ''soon'' = None
   \<and> formatDate (reference_host 330) (Some ''soon'') = ''soon''"
proof -
  have p: "Date_parse (reference_host 330) ''soon'' = None"
    by (simp add: reference_host_def parse_utc_def)
  show ?thesis
    using p formatDate_cases [of 330 "''soon''" "reference_host 330"] by simp
qed

subsection \<open>Scenario states\<close>

lemma two_rows_loaded_eq:
  "two_rows_loaded =
     \<lparr> data = [no_country_row\<lparr> requestDate := Some [] \<rparr>, india_shown],
       countries = [\<lparr> cname = ''India'' \<rparr>, \<lparr> cname = ''Japan'' \<rparr>], loading = False,
       editing = None, form = \<lparr> form_name = [], form_country = [] \<rparr>, saving = False,
       filterOpen = False, countryFilter = [(''India'', False), (''Japan'', False)],
       searchCountry = [], modalCountryOpen = False, inflight = None \<rparr>"
  by code_simp

lemma draft_open_eq:
  "draft_open =
     two_rows_loaded\<lparr> editing := Some india_shown,
       form := \<lparr> form_name = ''Draft'', form_country = ''India'' \<rparr>,
       modalCountryOpen := True \<rparr>"
  by code_simp

subsection \<open>A failed load\<close>

lemma fire_empty_table:
  "data s = [] \<Longrightarrow> editing s = None \<Longrightarrow> inflight s = None \<Longrightarrow> \<not> loading s \<Longrightarrow>
     data (fire h s ev) = [] \<and> editing (fire h s ev) = None \<and> inflight (fire h s ev) = None
     \<and> \<not> loading (fire h s ev)"
  by (cases ev) (simp_all add: fire_def handler_defs filteredData_def Let_def)

lemma run_empty_table:
  "data s = [] \<Longrightarrow> editing s = None \<Longrightarrow> inflight s = None \<Longrightarrow> \<not> loading s \<Longrightarrow>
     data (run h s evs) = [] \<and> \<not> loading (run h s evs)"
  unfolding run_def
  by (induction evs arbitrary: s) (simp_all add: fire_empty_table)

text \<open>
  C7: when the countries fetch, the countries JSON parse, the taxes fetch or the taxes
  JSON parse fails, the mounted component has \<open>loading\<close> false and an empty record
  list, and nothing that can happen afterwards loads a record: there is no retry, and no
  state variable holds the failure.
\<close>

theorem failed_load_empty_table:
  assumes "cr = Rejected r \<or> tr = Rejected r"
  shows "\<not> loading (mounted h cr tr) \<and> data (mounted h cr tr) = []
         \<and> (\<forall>evs. data (run h (mounted h cr tr) evs) = [] \<and> \<not> loading (run h (mounted h cr tr) evs))"
proof -
  have "data (mounted h cr tr) = [] \<and> editing (mounted h cr tr) = None
        \<and> inflight (mounted h cr tr) = None \<and> \<not> loading (mounted h cr tr)"
    using assms
    by (cases cr; cases tr) (auto simp: mounted_def load_def load_try_def init_state_def Let_def)
  then show ?thesis
    by (simp add: run_empty_table)
qed

theorem failed_load_empty_table_witness:
  "\<not> loading (mounted (reference_host 0) (Body [\<lparr> cname = ''India'' \<rparr>]) (Rejected JsonRejects))
   \<and> data (mounted (reference_host 0) (Body [\<lparr> cname = ''India'' \<rparr>]) (Rejected JsonRejects)) = []
   \<and> data (run (reference_host 0)
        (mounted (reference_host 0) (Body [\<lparr> cname = ''India'' \<rparr>]) (Rejected JsonRejects))
        [FilterButtonClick, CheckboxChange \<lparr> cname = ''India'' \<rparr>, SaveClick]) = []"
  using failed_load_empty_table [of "Body [\<lparr> cname = ''India'' \<rparr>]" JsonRejects
      "Rejected JsonRejects" "reference_host 0"]
  by simp

subsection \<open>The shared search text\<close>

lemma includes_str_sublist: "includes_str s t \<longleftrightarrow> sublist t s"
  by (induction s) (simp_all add: sublist_Cons_right)

text \<open>
  C9: the filter popover and the modal's country picker are computed from the same
  \<open>searchCountry\<close>: both list, in order, exactly the countries whose lowercased name
  contains the lowercased search text, and typing in either box sets the text for both.
\<close>

theorem shared_search:
  "filter_options h s = filter (\<lambda>c. sublist (toLowerCase h (searchCountry s)) (toLowerCase h (cname c))) (countries s)
   \<and> dropdown_options h s = filter_options h s
   \<and> filter_options h (handle h (ModalSearchChange v) s) = dropdown_options h (s\<lparr> searchCountry := v \<rparr>)
   \<and> dropdown_options h (handle h (FilterSearchChange v) s) = filter_options h (s\<lparr> searchCountry := v \<rparr>)"
  by (simp add: filter_options_def dropdown_options_def includes_str_sublist)

theorem shared_search_witness:
  "filter_options (reference_host 0)
     (handle (reference_host 0) (ModalSearchChange ''JAP'') draft_open) = [\<lparr> cname = ''Japan'' \<rparr>]
   \<and> dropdown_options (reference_host 0)
     (handle (reference_host 0) (FilterSearchChange ''JAP'') draft_open) = [\<lparr> cname = ''Japan'' \<rparr>]"
proof -
  have "dropdown_options (reference_host 0) (draft_open\<lparr> searchCountry := ''JAP'' \<rparr>)
          = [\<lparr> cname = ''Japan'' \<rparr>]"
       "filter_options (reference_host 0) (draft_open\<lparr> searchCountry := ''JAP'' \<rparr>)
          = [\<lparr> cname = ''Japan'' \<rparr>]"
    by code_simp+
  then show ?thesis
    using shared_search [of "reference_host 0" draft_open "''JAP''"] by simp
qed

subsection \<open>Closing the modal\<close>

lemma enabled_draft: "enabled h (s\<lparr> form := f \<rparr>) ev = enabled h s ev"
  by (cases ev) (simp_all add: filter_options_def dropdown_options_def filteredData_def Let_def)

lemma fire_same_but_draft:
  assumes "same_but_draft s t"
  shows "same_but_draft (fire h s ev) (fire h t ev)"
proof -
  obtain f where t: "t = s\<lparr> form := f \<rparr>" and f: "editing s \<noteq> None \<longrightarrow> f = form s"
    using assms unfolding same_but_draft_def by blast
  show ?thesis
    unfolding t fire_def enabled_draft using f
    by (cases ev)
       (auto simp: same_but_draft_def handler_defs Let_def split: option.splits fetched.splits)
qed

lemma run_same_but_draft:
  "same_but_draft s t \<Longrightarrow> same_but_draft (run h s evs) (run h t evs)"
  unfolding run_def
  by (induction evs arbitrary: s t) (simp_all add: fire_same_but_draft)

lemma same_but_draft_fields:
  "same_but_draft s t \<Longrightarrow> data t = data s \<and> inflight t = inflight s \<and> editing t = editing s"
  unfolding same_but_draft_def
  by (metis state.select_convs(1,4,11) state.surjective state.update_convs(5))

text \<open>
  C6: an overlay click, the close button and Cancel, each on the open modal, change
  nothing but \<open>editing\<close>, which becomes empty, and \<open>modalCountryOpen\<close>, which
  becomes false: the record list is as before and no request is issued. The draft is
  discarded: whatever it was, every later record list and every later request are the
  same.
\<close>

theorem closing_discards_draft:
  assumes "ev = OverlayClick \<or> ev = CloseClick \<or> ev = CancelClick" and "editing s \<noteq> None"
  shows "fire h s ev = s\<lparr> editing := None, modalCountryOpen := False \<rparr>
         \<and> data (fire h s ev) = data s
         \<and> inflight (fire h s ev) = inflight s
         \<and> (\<forall>f evs. data (run h ((fire h s ev)\<lparr> form := f \<rparr>) evs) = data (run h (fire h s ev) evs)
                   \<and> inflight (run h ((fire h s ev)\<lparr> form := f \<rparr>) evs)
                       = inflight (run h (fire h s ev) evs))"
proof -
  have closed: "fire h s ev = s\<lparr> editing := None, modalCountryOpen := False \<rparr>"
    using assms by (auto simp: fire_def closeModal_def)
  have "same_but_draft (fire h s ev) ((fire h s ev)\<lparr> form := f \<rparr>)" for f
    by (simp add: same_but_draft_def closed)
  then have "same_but_draft (run h (fire h s ev) evs) (run h ((fire h s ev)\<lparr> form := f \<rparr>) evs)" for f evs
    by (rule run_same_but_draft)
  then have "data (run h ((fire h s ev)\<lparr> form := f \<rparr>) evs) = data (run h (fire h s ev) evs)
      \<and> inflight (run h ((fire h s ev)\<lparr> form := f \<rparr>) evs) = inflight (run h (fire h s ev) evs)" for f evs
    using same_but_draft_fields by blast
  then show ?thesis
    using closed by simp
qed

theorem closing_discards_draft_witness:
  "editing draft_open \<noteq> None
   \<and> fire (reference_host 0) draft_open CancelClick
       = two_rows_loaded\<lparr> form := \<lparr> form_name = ''Draft'', form_country = ''India'' \<rparr> \<rparr>
   \<and> data (fire (reference_host 0) draft_open CancelClick) = data two_rows_loaded"
proof -
  have e: "editing draft_open \<noteq> None"
    by (simp add: draft_open_eq)
  have "fire (reference_host 0) draft_open CancelClick
          = draft_open\<lparr> editing := None, modalCountryOpen := False \<rparr>
        \<and> data (fire (reference_host 0) draft_open CancelClick) = data draft_open"
    using closing_discards_draft [of CancelClick draft_open "reference_host 0"] e by simp
  then show ?thesis
    using e by (simp add: draft_open_eq two_rows_loaded_eq)
qed

subsection \<open>Saving\<close>

lemma replaced_has_id:
  "x \<in> set (map (\<lambda>x. if id' x = id' u then u else x) xs) \<Longrightarrow> id' x = id' u \<Longrightarrow> x = u"
  by auto

lemma replaced_ids: "map id' (map (\<lambda>x. if id' x = id' u then u else x) xs) = map id' xs"
  by (induction xs) simp_all

lemma replaced_present:
  "R \<in> set xs \<Longrightarrow> id' R = id' u \<Longrightarrow> u \<in> set (map (\<lambda>x. if id' x = id' u then u else x) xs)"
  by (induction xs) auto

lemma data_resume:
  "data (handleSave_resume h (Body resp) s) =
     map (\<lambda>x. if id' x = id' (normalize h resp) then normalize h resp else x) (data s)"
  by (simp add: handleSave_resume_def normalize_def closeModal_def Let_def)

text \<open>
  C3, as stated, fails: the list stores what the endpoint replies. When the reply is the
  record as it was, the record stored for \<open>R\<close>'s id keeps the old name and country,
  whatever the draft was.
\<close>

theorem edit_and_save_counterexample:
  "india_shown \<in> set (data two_rows_loaded)
   \<and> inflight (handleSave (handle (reference_host 0) (RadioChange \<lparr> cname = ''Japan'' \<rparr>)
           (handle (reference_host 0) (NameChange ''Ravi K'')
              (openEdit india_shown two_rows_loaded))))
       = Some \<lparr> put_id = ''2'',
                put_body = india_shown\<lparr> name := Some ''Ravi K'', country := Some ''Japan'' \<rparr> \<rparr>
   \<and> data (handleSave_resume (reference_host 0) (Body india_row)
        (handleSave (handle (reference_host 0) (RadioChange \<lparr> cname = ''Japan'' \<rparr>)
           (handle (reference_host 0) (NameChange ''Ravi K'')
              (openEdit india_shown two_rows_loaded)))))
       = [no_country_row\<lparr> requestDate := Some [] \<rparr>, india_shown]
   \<and> id' india_shown = ''2''
   \<and> name india_shown = Some ''Ravi''
   \<and> country india_shown = Some ''India''"
  by code_simp

text \<open>
  C3, amended: for every record \<open>R\<close> of the list, opening the edit modal on \<open>R\<close>
  sets the draft to \<open>R\<close>'s name and country, each the empty string when absent.
  After the draft is edited to \<open>name'\<close> and \<open>country'\<close>, saving issues a PUT to
  \<open>R\<close>'s id whose body is \<open>R\<close> with name \<open>name'\<close> and country
  \<open>country'\<close>. What the list stores afterwards is the endpoint's reply, re-dated, in
  place of every record with the reply's id. When the reply carries \<open>R\<close>'s id and the
  name \<open>name'\<close> and country \<open>country'\<close>, every stored record with \<open>R\<close>'s id
  has that name and country, there is one, and the ids of the list are as before.
\<close>

theorem edit_and_save:
  assumes "R \<in> set (data s)"
  shows "editing (openEdit R s) = Some R
    \<and> form (openEdit R s)
        = \<lparr> form_name = (case name R of None \<Rightarrow> [] | Some n \<Rightarrow> n),
            form_country = (case country R of None \<Rightarrow> [] | Some c \<Rightarrow> c) \<rparr>
    \<and> inflight (handleSave (handle h (RadioChange \<lparr> cname = country' \<rparr>)
                   (handle h (NameChange name') (openEdit R s))))
        = Some \<lparr> put_id = id' R,
                 put_body = R\<lparr> name := Some name', country := Some country' \<rparr> \<rparr>
    \<and> data (handleSave_resume h (Body resp)
          (handleSave (handle h (RadioChange \<lparr> cname = country' \<rparr>)
             (handle h (NameChange name') (openEdit R s)))))
        = map (\<lambda>x. if id' x = id' resp then normalize h resp else x) (data s)
    \<and> (id' resp = id' R \<and> name resp = Some name' \<and> country resp = Some country' \<longrightarrow>
         (\<forall>x \<in> set (data (handleSave_resume h (Body resp)
                  (handleSave (handle h (RadioChange \<lparr> cname = country' \<rparr>)
                     (handle h (NameChange name') (openEdit R s)))))).
             id' x = id' R \<longrightarrow> name x = Some name' \<and> country x = Some country')
         \<and> (\<exists>x \<in> set (data (handleSave_resume h (Body resp)
                  (handleSave (handle h (RadioChange \<lparr> cname = country' \<rparr>)
                     (handle h (NameChange name') (openEdit R s)))))). id' x = id' R)
         \<and> map id' (data (handleSave_resume h (Body resp)
                  (handleSave (handle h (RadioChange \<lparr> cname = country' \<rparr>)
                     (handle h (NameChange name') (openEdit R s))))))
             = map id' (data s))"
proof -
  let ?s = "handleSave (handle h (RadioChange \<lparr> cname = country' \<rparr>)
              (handle h (NameChange name') (openEdit R s)))"
  have d: "data ?s = data s"
    by (simp add: handler_defs)
  have opened: "editing (openEdit R s) = Some R"
    by (simp add: openEdit_def)
  have open_form: "form (openEdit R s)
        = \<lparr> form_name = (case name R of None \<Rightarrow> [] | Some n \<Rightarrow> n),
            form_country = (case country R of None \<Rightarrow> [] | Some c \<Rightarrow> c) \<rparr>"
    by (simp add: openEdit_def nullish_def)
  have put: "inflight ?s
        = Some \<lparr> put_id = id' R,
                 put_body = R\<lparr> name := Some name', country := Some country' \<rparr> \<rparr>"
    by (simp add: handler_defs)
  have stored: "id' resp = id' R \<and> name resp = Some name' \<and> country resp = Some country' \<longrightarrow>
         (\<forall>x \<in> set (data (handleSave_resume h (Body resp) ?s)).
             id' x = id' R \<longrightarrow> name x = Some name' \<and> country x = Some country')
         \<and> (\<exists>x \<in> set (data (handleSave_resume h (Body resp) ?s)). id' x = id' R)
         \<and> map id' (data (handleSave_resume h (Body resp) ?s)) = map id' (data s)"
  proof (intro impI)
    assume echo: "id' resp = id' R \<and> name resp = Some name' \<and> country resp = Some country'"
    let ?u = "normalize h resp"
    have u: "id' ?u = id' R" "name ?u = Some name'" "country ?u = Some country'"
      using echo by (simp_all add: normalize_def)
    have ds: "data (handleSave_resume h (Body resp) ?s)
                = map (\<lambda>x. if id' x = id' ?u then ?u else x) (data s)"
      by (simp only: data_resume d)
    have only: "x = ?u"
      if "x \<in> set (data (handleSave_resume h (Body resp) ?s))" "id' x = id' R" for x
    proof (rule replaced_has_id)
      show "x \<in> set (map (\<lambda>x. if id' x = id' ?u then ?u else x) (data s))"
        using that(1) unfolding ds .
      show "id' x = id' ?u"
        using that(2) u(1) by simp
    qed
    have present: "?u \<in> set (data (handleSave_resume h (Body resp) ?s))"
      unfolding ds using assms by (rule replaced_present) (simp add: u(1))
    have ids: "map id' (data (handleSave_resume h (Body resp) ?s)) = map id' (data s)"
      unfolding ds by (rule replaced_ids)
    have "\<forall>x \<in> set (data (handleSave_resume h (Body resp) ?s)).
             id' x = id' R \<longrightarrow> name x = Some name' \<and> country x = Some country'"
      using only u(2,3) by auto
    moreover have "\<exists>x \<in> set (data (handleSave_resume h (Body resp) ?s)). id' x = id' R"
      using present u(1) by (rule bexI [rotated])
    ultimately show "(\<forall>x \<in> set (data (handleSave_resume h (Body resp) ?s)).
             id' x = id' R \<longrightarrow> name x = Some name' \<and> country x = Some country')
         \<and> (\<exists>x \<in> set (data (handleSave_resume h (Body resp) ?s)). id' x = id' R)
         \<and> map id' (data (handleSave_resume h (Body resp) ?s)) = map id' (data s)"
      using ids by (intro conjI)
  qed
  have reply: "data (handleSave_resume h (Body resp) ?s)
        = map (\<lambda>x. if id' x = id' resp then normalize h resp else x) (data s)"
    unfolding data_resume d by (simp add: normalize_def)
  show ?thesis
    by (intro conjI opened open_form put reply stored)
qed

theorem edit_and_save_witness:
  "india_shown \<in> set (data two_rows_loaded)
   \<and> id' saved_reply = id' india_shown
   \<and> name saved_reply = Some ''Ravi K''
   \<and> country saved_reply = Some ''Japan''
   \<and> form (openEdit india_shown two_rows_loaded)
       = \<lparr> form_name = ''Ravi'', form_country = ''India'' \<rparr>
   \<and> data (handleSave_resume (reference_host 0) (Body saved_reply)
        (handleSave (handle (reference_host 0) (RadioChange \<lparr> cname = ''Japan'' \<rparr>)
           (handle (reference_host 0) (NameChange ''Ravi K'')
              (openEdit india_shown two_rows_loaded)))))
       = [no_country_row\<lparr> requestDate := Some [] \<rparr>,
          india_shown\<lparr> name := Some ''Ravi K'', country := Some ''Japan'' \<rparr>]"
proof -
  have r: "india_shown \<in> set (data two_rows_loaded)"
    by (simp add: two_rows_loaded_eq)
  have echo: "id' saved_reply = id' india_shown" "name saved_reply = Some ''Ravi K''"
      "country saved_reply = Some ''Japan''"
    by (simp_all add: saved_reply_def india_shown_def)
  have f: "form (openEdit india_shown two_rows_loaded)
       = \<lparr> form_name = ''Ravi'', form_country = ''India'' \<rparr>"
    using edit_and_save [OF r, of "reference_host 0" "''Japan''" "''Ravi K''" saved_reply]
    by (simp add: india_shown_def india_row_def)
  have d: "data (handleSave_resume (reference_host 0) (Body saved_reply)
        (handleSave (handle (reference_host 0) (RadioChange \<lparr> cname = ''Japan'' \<rparr>)
           (handle (reference_host 0) (NameChange ''Ravi K'')
              (openEdit india_shown two_rows_loaded)))))
       = [no_country_row\<lparr> requestDate := Some [] \<rparr>,
          india_shown\<lparr> name := Some ''Ravi K'', country := Some ''Japan'' \<rparr>]"
    by code_simp
  show ?thesis
    using r echo f d by simp
qed

lemma fire_stuck:
  "saving s \<Longrightarrow> inflight s = None \<Longrightarrow> saving (fire h s ev) \<and> inflight (fire h s ev) = None"
  by (cases ev) (simp_all add: fire_def handler_defs)

lemma run_stuck:
  "saving s \<Longrightarrow> inflight s = None \<Longrightarrow> saving (run h s evs) \<and> inflight (run h s evs) = None"
  unfolding run_def
  by (induction evs arbitrary: s) (simp_all add: fire_stuck)

lemma fire_awaiting:
  "saving s \<Longrightarrow> inflight s = Some p \<Longrightarrow> user_event ev \<Longrightarrow>
     saving (fire h s ev) \<and> inflight (fire h s ev) = Some p \<and> data (fire h s ev) = data s"
  by (cases ev) (simp_all add: fire_def handler_defs)

lemma run_awaiting:
  "saving s \<Longrightarrow> inflight s = Some p \<Longrightarrow> list_all user_event evs \<Longrightarrow>
     saving (run h s evs) \<and> inflight (run h s evs) = Some p \<and> data (run h s evs) = data s"
  unfolding run_def
  by (induction evs arbitrary: s) (simp_all add: fire_awaiting)

text \<open>
  C8: when the PUT or the parsing of its reply is rejected, whatever the user did while
  it was awaited, the rejection changes nothing in the component: \<open>editing\<close> is not
  cleared (the modal stays open if it was), the record list is the one before the save,
  and \<open>saving\<close> is true and stays true under every later sequence of events.
\<close>

theorem failed_save_sticks:
  assumes "editing s0 = Some e" and "\<not> saving s0" and "list_all user_event es1"
  shows "fire h (run h (fire h s0 SaveClick) es1) (SaveSettled (Rejected r))
           = (run h (fire h s0 SaveClick) es1)\<lparr> inflight := None \<rparr>
         \<and> saving (run h (fire h s0 SaveClick) es1)
         \<and> data (run h (fire h s0 SaveClick) es1) = data s0
         \<and> (es1 = [] \<longrightarrow>
              editing (fire h (fire h s0 SaveClick) (SaveSettled (Rejected r))) = Some e)
         \<and> (\<forall>es2. saving
               (run h (fire h (run h (fire h s0 SaveClick) es1) (SaveSettled (Rejected r))) es2))"
proof -
  let ?s1 = "fire h s0 SaveClick"
  let ?s2 = "run h ?s1 es1"
  let ?s3 = "fire h ?s2 (SaveSettled (Rejected r))"
  obtain p where s1: "saving ?s1" "inflight ?s1 = Some p" "data ?s1 = data s0" "editing ?s1 = Some e"
    using assms(1,2) by (simp add: fire_def handleSave_def)
  have s2: "saving ?s2" "inflight ?s2 = Some p" "data ?s2 = data s0"
    using run_awaiting [OF s1(1,2) assms(3), of h] s1(3) by simp_all
  have s3: "?s3 = ?s2\<lparr> inflight := None \<rparr>"
    using s2(2) by (simp add: fire_def handleSave_resume_def)
  have "saving ?s3" "inflight ?s3 = None"
    using s2(1) by (simp_all add: s3)
  then have "\<forall>es2. saving (run h ?s3 es2)"
    by (simp add: run_stuck)
  moreover have "es1 = [] \<longrightarrow> editing (fire h ?s1 (SaveSettled (Rejected r))) = Some e"
    using s1(2,4) by (simp add: fire_def handleSave_resume_def)
  ultimately show ?thesis
    using s2 s3 by simp
qed

theorem failed_save_sticks_witness:
  "editing draft_open = Some india_shown
   \<and> \<not> saving draft_open
   \<and> list_all user_event [NameChange ''Ravi K'']
   \<and> editing (fire (reference_host 0) (fire (reference_host 0) draft_open SaveClick)
        (SaveSettled (Rejected JsonRejects))) = Some india_shown
   \<and> data (run (reference_host 0) (fire (reference_host 0) draft_open SaveClick)
        [NameChange ''Ravi K'']) = data draft_open
   \<and> saving (run (reference_host 0)
        (fire (reference_host 0)
           (run (reference_host 0) (fire (reference_host 0) draft_open SaveClick)
              [NameChange ''Ravi K''])
           (SaveSettled (Rejected JsonRejects)))
        [CancelClick, EditClick india_shown, SaveClick])"
proof -
  have a: "editing draft_open = Some india_shown"
    by (simp add: draft_open_eq)
  have b: "\<not> saving draft_open"
    by (simp add: draft_open_eq two_rows_loaded_eq)
  have c: "list_all user_event [NameChange ''Ravi K'']"
    by simp
  have c0: "list_all user_event []"
    by simp
  note after_edit = failed_save_sticks [OF a b c, of "reference_host 0" JsonRejects]
  note at_once = failed_save_sticks [OF a b c0, of "reference_host 0" JsonRejects]
  have stays_open: "editing (fire (reference_host 0) (fire (reference_host 0) draft_open SaveClick)
        (SaveSettled (Rejected JsonRejects))) = Some india_shown"
    using at_once by blast
  have same_list: "data (run (reference_host 0) (fire (reference_host 0) draft_open SaveClick)
        [NameChange ''Ravi K'']) = data draft_open"
    using after_edit by blast
  have "\<forall>es2. saving (run (reference_host 0)
        (fire (reference_host 0)
           (run (reference_host 0) (fire (reference_host 0) draft_open SaveClick)
              [NameChange ''Ravi K''])
           (SaveSettled (Rejected JsonRejects))) es2)"
    using after_edit by blast
  then have stuck: "saving (run (reference_host 0)
        (fire (reference_host 0)
           (run (reference_host 0) (fire (reference_host 0) draft_open SaveClick)
              [NameChange ''Ravi K''])
           (SaveSettled (Rejected JsonRejects)))
        [CancelClick, EditClick india_shown, SaveClick])"
    by (rule spec)
  show ?thesis
    by (intro conjI a b c stays_open same_list stuck)
qed

end
